theory Spec2Isabelle
  imports Main
begin

section \<open>Shared shapes of the helpers' inputs\<close>

text \<open>
  The TypeScript type \<open>NAry<T> = T | T[]\<close>: a value that is either singular or a list.
  \<open>One x\<close> stands for every value on which \<open>Array.isArray\<close> answers false (an absent,
  \<open>undefined\<close> field included: the converters never look at it otherwise), \<open>Many xs\<close>
  for an array.
\<close>

datatype 'a NAry = One 'a | Many "'a list"

text \<open>
  A thrown JavaScript exception with its message: an \<open>Error\<close> that the converters raise
  themselves, or the \<open>RangeError\<close> of the array constructor.
\<close>

datatype error = Error string | RangeError string

text \<open>
  \<open>Array.prototype.flatMap\<close> with a callback that may throw: the first exception leaves
  the loop, otherwise the callback's lists are concatenated in order.
\<close>

fun flatMap :: "('a \<Rightarrow> error + 'b list) \<Rightarrow> 'a list \<Rightarrow> error + 'b list" where
  "flatMap f [] = Inr []"
| "flatMap f (x # xs) =
     (case f x of
        Inl e \<Rightarrow> Inl e
      | Inr ys \<Rightarrow> (case flatMap f xs of Inl e \<Rightarrow> Inl e | Inr zs \<Rightarrow> Inr (ys @ zs)))"

section \<open>Token mints and approvals\<close>

text \<open>
  The declarations of the raw and canonical types (the modules \<open>tokens/types\<close>,
  \<open>vault/types\<close> and \<open>pools/safeguard/types\<close>) are not among the sources; the records below
  have the fields that the converters read and write.

  One raw mint \<open>{ to, amount, from }\<close>: recipient and sender are singular or lists, the
  amount is copied as it is. \<open>RawTokenMint\<close> is \<open>NAry\<close> of these objects.
\<close>

record ('a, 'b, 's) RawTokenMintItem =
  rm_to :: "'a NAry"
  rm_amount :: 'b
  rm_from :: "'s NAry"

type_synonym ('a, 'b, 's) RawTokenMint = "('a, 'b, 's) RawTokenMintItem NAry"

record ('a, 'b, 's) TokenMint =
  tm_to :: 'a
  tm_amount :: 'b
  tm_from :: 's

text \<open>The body of \<open>toTokenMints\<close> below its first line, for an input that is not an array.\<close>

definition toTokenMint :: "('a, 'b, 's) RawTokenMintItem \<Rightarrow> error + ('a, 'b, 's) TokenMint list" where
  "toTokenMint params =
     (case rm_to params of
        One recipient \<Rightarrow>
          (case rm_from params of
             Many senders \<Rightarrow> Inl (Error ''Inconsistent mint sender length'')
           | One sender \<Rightarrow>
               Inr [\<lparr>tm_to = recipient, tm_amount = rm_amount params, tm_from = sender\<rparr>])
      | Many recipients \<Rightarrow>
          (case rm_from params of
             Many senders \<Rightarrow>
               if length recipients \<noteq> length senders
               then Inl (Error ''Inconsistent mint sender length'')
               else Inr (map (\<lambda>i. \<lparr>tm_to = recipients ! i, tm_amount = rm_amount params,
                                      tm_from = senders ! i\<rparr>) [0..<length recipients])
           | One sender \<Rightarrow>
               Inr (map (\<lambda>i. \<lparr>tm_to = recipients ! i, tm_amount = rm_amount params,
                                 tm_from = sender\<rparr>) [0..<length recipients])))"

fun toTokenMints :: "('a, 'b, 's) RawTokenMint \<Rightarrow> error + ('a, 'b, 's) TokenMint list" where
  "toTokenMints (Many params) = flatMap toTokenMint params"
| "toTokenMints (One params) = toTokenMint params"

text \<open>One raw approval \<open>{ to, amount, from }\<close>, of the same shape as a raw mint.\<close>

record ('a, 'b, 's) RawTokenApprovalItem =
  ra_to :: "'a NAry"
  ra_amount :: 'b
  ra_from :: "'s NAry"

type_synonym ('a, 'b, 's) RawTokenApproval = "('a, 'b, 's) RawTokenApprovalItem NAry"

record ('a, 'b, 's) TokenApproval =
  ta_to :: 'a
  ta_amount :: 'b
  ta_from :: 's

text \<open>
  The body of \<open>toTokenApprovals\<close> for an input that is not an array. No path of it throws,
  so every result is an \<open>Inr\<close>; the inner \<open>flatMap\<close> and \<open>map\<close> run over callbacks that
  build object literals only.
\<close>

definition toTokenApproval ::
  "('a, 'b, 's) RawTokenApprovalItem \<Rightarrow> error + ('a, 'b, 's) TokenApproval list" where
  "toTokenApproval params =
     (let recipients = ra_to params;
          tos = (case recipients of Many rs \<Rightarrow> rs | One r \<Rightarrow> [r])
      in Inr (concat (map (\<lambda>recipient.
            (case ra_from params of
               Many senders \<Rightarrow>
                 map (\<lambda>sender. \<lparr>ta_to = recipient, ta_amount = ra_amount params,
                                  ta_from = sender\<rparr>) senders
             | One sender \<Rightarrow>
                 [\<lparr>ta_to = recipient, ta_amount = ra_amount params, ta_from = sender\<rparr>])) tos)))"

fun toTokenApprovals ::
  "('a, 'b, 's) RawTokenApproval \<Rightarrow> error + ('a, 'b, 's) TokenApproval list" where
  "toTokenApprovals (Many params) = flatMap toTokenApproval params"
| "toTokenApprovals (One params) = toTokenApproval params"

section \<open>Token deployments\<close>

text \<open>
  The decimal digits of a natural number, as the template literals \<open>`TK${i}`\<close> and
  \<open>`Token ${i}`\<close> print an array index.
\<close>

definition digitChar :: "nat \<Rightarrow> char" where
  "digitChar d = ''0123456789'' ! d"

fun numberToString :: "nat \<Rightarrow> string" where
  "numberToString n =
     (if n < 10 then [digitChar n] else numberToString (n div 10) @ [digitChar (n mod 10)])"

text \<open>
  \<open>computeDecimalsFromIndex\<close>: JavaScript's \<open>%\<close> truncates towards zero, so the result
  carries the sign of \<open>i\<close>; on an array index it is the usual remainder.
\<close>

definition computeDecimalsFromIndex :: "int \<Rightarrow> int" where
  "computeDecimalsFromIndex i = sgn i * (\<bar>i\<bar> mod 19)"

text \<open>
  A property of an object literal: the object does not have it, or has it with the value
  \<open>undefined\<close>, or has it with a value. Reading it gives \<open>undefined\<close> (\<open>None\<close>) in the
  first two cases; \<open>Object.assign\<close> tells them apart.
\<close>

datatype 'a Property = Absent | Undefined | Value 'a

definition readProperty :: "'a Property \<Rightarrow> 'a option" where
  "readProperty p = (case p of Absent \<Rightarrow> None | Undefined \<Rightarrow> None | Value v \<Rightarrow> Some v)"

text \<open>A property written from a variable that may hold \<open>undefined\<close>, as in \<open>{ from }\<close>.\<close>

definition ownProperty :: "'a option \<Rightarrow> 'a Property" where
  "ownProperty v = (case v of None \<Rightarrow> Undefined | Some x \<Rightarrow> Value x)"

text \<open>
  The object form of a raw token deployment, \<open>{ name?, symbol?, decimals?, from? }\<close>.
\<close>

record 's TokenAttributes =
  rd_name :: "string Property"
  rd_symbol :: "string Property"
  rd_decimals :: "int Property"
  rd_from :: "'s Property"

text \<open>\<open>RawTokenDeployment\<close>: a bare symbol or the object form.\<close>

datatype 's RawTokenDeployment = Symbol string | Attributes "'s TokenAttributes"

text \<open>
  \<open>RawTokensDeployment\<close>: a bare count (a JavaScript number, integers only here), or one
  or many raw token deployments.
\<close>

datatype 's RawTokensDeployment = Count int | Tokens "'s RawTokenDeployment NAry"

record 's TokenDeployment =
  td_from :: "'s option"
  td_name :: string
  td_symbol :: string
  td_decimals :: int

text \<open>The nullish coalescing operator \<open>??\<close>.\<close>

definition nullish :: "'a option \<Rightarrow> 'a \<Rightarrow> 'a" where
  "nullish v d = (case v of None \<Rightarrow> d | Some x \<Rightarrow> x)"

definition toTokenDeployment :: "'s RawTokenDeployment \<Rightarrow> 's TokenDeployment" where
  "toTokenDeployment params =
     (let params = (case params of
                      Symbol s \<Rightarrow> \<lparr>rd_name = Absent, rd_symbol = Value s, rd_decimals = Absent,
                                   rd_from = Absent\<rparr>
                    | Attributes a \<Rightarrow> a)
      in \<lparr>td_from = readProperty (rd_from params),
          td_name = nullish (readProperty (rd_name params)) ''Token'',
          td_symbol = nullish (readProperty (rd_symbol params)) ''TKN'',
          td_decimals = nullish (readProperty (rd_decimals params)) 18\<rparr>)"

text \<open>
  \<open>Object.assign({}, defaults, param)\<close> on token attributes: every property that \<open>param\<close>
  has, one whose value is \<open>undefined\<close> included, replaces the default's.
\<close>

definition assignProperty :: "'a Property \<Rightarrow> 'a Property \<Rightarrow> 'a Property" where
  "assignProperty d v = (case v of Absent \<Rightarrow> d | Undefined \<Rightarrow> Undefined | Value x \<Rightarrow> Value x)"

definition assign :: "'s TokenAttributes \<Rightarrow> 's TokenAttributes \<Rightarrow> 's TokenAttributes" where
  "assign defaults param =
     \<lparr>rd_name = assignProperty (rd_name defaults) (rd_name param),
      rd_symbol = assignProperty (rd_symbol defaults) (rd_symbol param),
      rd_decimals = assignProperty (rd_decimals defaults) (rd_decimals param),
      rd_from = assignProperty (rd_from defaults) (rd_from param)\<rparr>"

text \<open>
  \<open>Array(n)\<close> for an integral number \<open>n\<close>, filled with \<open>x\<close>: the constructor throws a
  \<open>RangeError\<close> unless \<open>n\<close> is an array length, from \<open>0\<close> to \<open>2^32 - 1\<close>.
\<close>

definition arrayFill :: "int \<Rightarrow> 'a \<Rightarrow> error + 'a list" where
  "arrayFill n x =
     (if 0 \<le> n \<and> n < 2 ^ 32 then Inr (replicate (nat n) x)
      else Inl (RangeError ''Invalid array length''))"

text \<open>
  \<open>toTokenDeployments(params, from, varyDecimals)\<close>. A count \<open>n\<close> becomes
  \<open>Array(n).fill({})\<close>, a single deployment a one-element list; the callback of \<open>map\<close>
  receives each element with its index.
\<close>

definition toTokenDeployments ::
  "'s RawTokensDeployment \<Rightarrow> 's option \<Rightarrow> bool \<Rightarrow> error + 's TokenDeployment list" where
  "toTokenDeployments params from_signer varyDecimals =
     (case (case params of
              Count n \<Rightarrow>
                arrayFill n (Attributes \<lparr>rd_name = Absent, rd_symbol = Absent,
                                         rd_decimals = Absent, rd_from = Absent\<rparr>)
            | Tokens (Many ps) \<Rightarrow> Inr ps
            | Tokens (One p) \<Rightarrow> Inr [p]) of
        Inl e \<Rightarrow> Inl e
      | Inr params \<Rightarrow>
          Inr (map (\<lambda>(i, param).
            let param = (case param of
                           Symbol s \<Rightarrow> \<lparr>rd_name = Absent, rd_symbol = Value s,
                                        rd_decimals = Absent, rd_from = ownProperty from_signer\<rparr>
                         | Attributes a \<Rightarrow> a);
                args = assign
                  \<lparr>rd_name = Value (''Token '' @ numberToString i),
                   rd_symbol = Value (''TK'' @ numberToString i),
                   rd_decimals =
                     Value (if varyDecimals then computeDecimalsFromIndex (int i) else 18),
                   rd_from = ownProperty from_signer\<rparr> param
            in toTokenDeployment (Attributes args)) (enumerate 0 params)))"

section \<open>Imported constants and primitive values\<close>

text \<open>
  Modelled from the spec: the type \<open>BigNumberish\<close> is declared in the module \<open>numbers\<close>,
  which is not among the sources. A value of it is a JavaScript number (integers only
  here), a string, or a \<open>BigNumber\<close> object (a big integer). Only the first two can be
  falsy: the number \<open>0\<close> and the empty string.
\<close>

datatype BigNumberish = Number int | String string | BigNumber int

definition falsyBigNumberish :: "BigNumberish option \<Rightarrow> bool" where
  "falsyBigNumberish v =
     (case v of
        None \<Rightarrow> True
      | Some (Number n) \<Rightarrow> n = 0
      | Some (String s) \<Rightarrow> s = []
      | Some (BigNumber b) \<Rightarrow> False)"

text \<open>
  Modelled from the spec: the modules \<open>numbers\<close>, \<open>time\<close> and \<open>constants\<close> that export
  \<open>FP_100_PCT\<close>, \<open>fp\<close>, \<open>DAY\<close>, \<open>MONTH\<close> and \<open>ZERO_ADDRESS\<close> are not among the sources.
  Their values are parameters of the converters that use them: the 100% fixed-point
  constant, the two fixed-point fractions \<open>fp(0.1)\<close> and \<open>fp(0.2)\<close>, the lengths of a day
  and of a month in seconds, and the zero address.
\<close>

record Constants =
  FP_100_PCT :: BigNumberish
  fp_0_1 :: BigNumberish
  fp_0_2 :: BigNumberish
  DAY :: int
  MONTH :: int
  ZERO_ADDRESS :: string

section \<open>Addresses\<close>

text \<open>
  Modelled from the spec: the type \<open>Account\<close> is declared in the module \<open>types\<close>, which is
  not among the sources. An account is either a raw address string or an object exposing
  an \<open>address\<close> (a signer, a contract); of the object only that field is read.
\<close>

datatype Account = AddressString string | AccountObject (address: string)

text \<open>\<open>!to\<close>: an absent account and the empty string are falsy, an object never is.\<close>

definition falsyAccount :: "Account option \<Rightarrow> bool" where
  "falsyAccount acc =
     (case acc of
        None \<Rightarrow> True
      | Some (AddressString s) \<Rightarrow> s = []
      | Some (AccountObject a) \<Rightarrow> False)"

definition toAddress :: "Constants \<Rightarrow> Account option \<Rightarrow> string" where
  "toAddress c acc =
     (if falsyAccount acc then ZERO_ADDRESS c
      else (case acc of
              Some (AddressString s) \<Rightarrow> s
            | Some (AccountObject a) \<Rightarrow> a
            | None \<Rightarrow> ZERO_ADDRESS c))"

definition toAddresses :: "Constants \<Rightarrow> Account list \<Rightarrow> string list" where
  "toAddresses c accs = map (\<lambda>a. toAddress c (Some a)) accs"

section \<open>Vault deployments\<close>

record 's RawVaultDeployment =
  rv_mocked :: "bool option"
  rv_admin :: "'s option"
  rv_pauseWindowDuration :: "BigNumberish option"
  rv_bufferPeriodDuration :: "BigNumberish option"
  rv_maxYieldValue :: "BigNumberish option"
  rv_maxAUMValue :: "BigNumberish option"
  rv_from :: "'s option"

record 's VaultDeployment =
  vd_mocked :: bool
  vd_admin :: "'s option"
  vd_pauseWindowDuration :: BigNumberish
  vd_bufferPeriodDuration :: BigNumberish
  vd_maxYieldValue :: BigNumberish
  vd_maxAUMValue :: BigNumberish

text \<open>
  \<open>if (!x) x = d\<close> on a \<open>BigNumberish\<close> field: the default replaces an absent or falsy
  value.
\<close>

definition orDefault :: "BigNumberish option \<Rightarrow> BigNumberish \<Rightarrow> BigNumberish" where
  "orDefault v d = (if falsyBigNumberish v then d else (case v of Some x \<Rightarrow> x | None \<Rightarrow> d))"

definition toVaultDeployment :: "Constants \<Rightarrow> 's RawVaultDeployment \<Rightarrow> 's VaultDeployment" where
  "toVaultDeployment c params =
     \<lparr>vd_mocked = (case rv_mocked params of Some True \<Rightarrow> True | _ \<Rightarrow> False),
      vd_admin = (case rv_admin params of None \<Rightarrow> rv_from params | Some a \<Rightarrow> Some a),
      vd_pauseWindowDuration = orDefault (rv_pauseWindowDuration params) (Number 0),
      vd_bufferPeriodDuration = orDefault (rv_bufferPeriodDuration params) (Number 0),
      vd_maxYieldValue = orDefault (rv_maxYieldValue params) (FP_100_PCT c),
      vd_maxAUMValue = orDefault (rv_maxAUMValue params) (FP_100_PCT c)\<rparr>"

text \<open>The raw deployment \<open>{}\<close>: every field absent.\<close>

definition emptyRawVaultDeployment :: "'s RawVaultDeployment" where
  "emptyRawVaultDeployment =
     \<lparr>rv_mocked = None, rv_admin = None, rv_pauseWindowDuration = None,
      rv_bufferPeriodDuration = None, rv_maxYieldValue = None, rv_maxAUMValue = None,
      rv_from = None\<rparr>"

section \<open>Safeguard pool deployments\<close>

text \<open>
  Modelled from the spec: the class \<open>TokenList\<close> is not among the sources. It is the token
  list collaborator that exposes a length and an ordered map operation, so a token list is
  the list of its tokens and \<open>new TokenList()\<close> is the empty list.
\<close>

record ('t, 's) RawSafeguardPoolDeployment =
  rs_tokens :: "'t list option"
  rs_oracles :: "Account list option"
  rs_maxOracleTimeouts :: "BigNumberish list option"
  rs_stableTokens :: "bool list option"
  rs_flexibleOracles :: "bool list option"
  rs_assetManagers :: "string list option"
  rs_pauseWindowDuration :: "BigNumberish option"
  rs_bufferPeriodDuration :: "BigNumberish option"
  rs_signer :: "'s option"
  rs_maxPerfDev :: "BigNumberish option"
  rs_maxTargetDev :: "BigNumberish option"
  rs_maxPriceDev :: "BigNumberish option"
  rs_perfUpdateInterval :: "BigNumberish option"
  rs_yearlyFees :: "BigNumberish option"
  rs_mustAllowlistLPs :: "bool option"
  rs_owner :: "Account option"
  rs_from :: "'s option"

text \<open>
  The per-token oracle parameters. Each field is read from a list by index, and reading a
  JavaScript array past its end gives \<open>undefined\<close>: \<open>None\<close> here.
\<close>

record InitialOracleParams =
  op_oracle :: "Account option"
  op_maxTimeout :: "BigNumberish option"
  op_isStable :: "bool option"
  op_isFlexibleOracle :: "bool option"

record 's InitialSafeguardParams =
  sp_signer :: "'s option"
  sp_maxPerfDev :: BigNumberish
  sp_maxTargetDev :: BigNumberish
  sp_perfUpdateInterval :: BigNumberish
  sp_maxPriceDev :: "BigNumberish option"
  sp_yearlyFees :: BigNumberish
  sp_mustAllowlistLPs :: bool

record ('t, 's) SafeguardPoolDeployment =
  sd_tokens :: "'t list"
  sd_assetManagers :: "string list"
  sd_pauseWindowDuration :: BigNumberish
  sd_bufferPeriodDuration :: BigNumberish
  sd_owner :: string
  sd_from :: "'s option"
  sd_oracleParameters :: "InitialOracleParams list"
  sd_safeguardParameters :: "'s InitialSafeguardParams"

text \<open>\<open>xs[i]\<close> on a JavaScript array.\<close>

definition at :: "'a list \<Rightarrow> nat \<Rightarrow> 'a option" where
  "at xs i = (if i < length xs then Some (xs ! i) else None)"

text \<open>\<open>if (!xs) xs = Array(n).fill(d)\<close>: an array, even an empty one, is never falsy.\<close>

definition orFill :: "'a list option \<Rightarrow> nat \<Rightarrow> 'a \<Rightarrow> 'a list" where
  "orFill xs n d = (case xs of None \<Rightarrow> replicate n d | Some ys \<Rightarrow> ys)"

text \<open>
  The first statement of \<open>toSafeguardPoolDeployment\<close> writes the default owner into the
  caller's object; \<open>withOwner\<close> is that object after the call.
\<close>

definition withOwner ::
  "Constants \<Rightarrow> ('t, 's) RawSafeguardPoolDeployment \<Rightarrow> ('t, 's) RawSafeguardPoolDeployment" where
  "withOwner c params =
     (if falsyAccount (rs_owner params)
      then params\<lparr>rs_owner := Some (AddressString (ZERO_ADDRESS c))\<rparr>
      else params)"

definition toSafeguardPoolDeployment ::
  "Constants \<Rightarrow> ('t, 's) RawSafeguardPoolDeployment \<Rightarrow> ('t, 's) SafeguardPoolDeployment" where
  "toSafeguardPoolDeployment c params0 =
     (let params = withOwner c params0;
          tokens = (case rs_tokens params of None \<Rightarrow> [] | Some ts \<Rightarrow> ts);
          oracles = orFill (rs_oracles params) (length tokens) (AddressString (ZERO_ADDRESS c));
          maxOracleTimeouts =
            orFill (rs_maxOracleTimeouts params) (length tokens) (Number (1 * DAY c));
          stableTokens = orFill (rs_stableTokens params) (length tokens) True;
          flexibleOracles = orFill (rs_flexibleOracles params) (length tokens) False;
          pauseWindowDuration = orDefault (rs_pauseWindowDuration params) (Number (3 * MONTH c));
          bufferPeriodDuration = orDefault (rs_bufferPeriodDuration params) (Number (MONTH c));
          assetManagers = orFill (rs_assetManagers params) (length tokens) (ZERO_ADDRESS c);
          maxPerfDev = orDefault (rs_maxPerfDev params) (fp_0_1 c);
          maxTargetDev = orDefault (rs_maxTargetDev params) (fp_0_2 c);
          perfUpdateInterval = orDefault (rs_perfUpdateInterval params) (Number (1 * DAY c));
          yearlyFees = orDefault (rs_yearlyFees params) (Number 0);
          mustAllowlistLPs = (case rs_mustAllowlistLPs params of None \<Rightarrow> False | Some b \<Rightarrow> b);
          oracleParameters =
            map (\<lambda>(i, t). \<lparr>op_oracle = at oracles i,
                             op_maxTimeout = at maxOracleTimeouts i,
                             op_isStable = at stableTokens i,
                             op_isFlexibleOracle = at flexibleOracles i\<rparr>) (enumerate 0 tokens);
          safeguardParameters =
            \<lparr>sp_signer = rs_signer params,
             sp_maxPerfDev = maxPerfDev,
             sp_maxTargetDev = maxTargetDev,
             sp_perfUpdateInterval = perfUpdateInterval,
             sp_maxPriceDev = rs_maxPriceDev params,
             sp_yearlyFees = yearlyFees,
             sp_mustAllowlistLPs = mustAllowlistLPs\<rparr>
      in \<lparr>sd_tokens = tokens,
          sd_assetManagers = assetManagers,
          sd_pauseWindowDuration = pauseWindowDuration,
          sd_bufferPeriodDuration = bufferPeriodDuration,
          sd_owner = toAddress c (rs_owner params),
          sd_from = rs_from params,
          sd_oracleParameters = oracleParameters,
          sd_safeguardParameters = safeguardParameters\<rparr>)"

section \<open>Pool rights as a 32-byte word\<close>

text \<open>
  Modelled from the spec: \<open>ethers.utils.hexlify\<close> and \<open>ethers.utils.hexZeroPad\<close> belong to
  a library that is not among the sources. \<open>hexlify\<close> of a number is its big-endian
  hexadecimal encoding in whole bytes behind \<open>0x\<close> (\<open>0x00\<close> for zero); \<open>hexZeroPad\<close> pads
  such a string with zeros behind the \<open>0x\<close> up to the given number of bytes and rejects a
  longer one.
\<close>

definition HexCharacters :: string where
  "HexCharacters = ''0123456789abcdef''"

text \<open>
  Modelled from the spec: the digits of \<open>hexlify\<close>, most significant first, none for zero.
\<close>

fun hexDigits :: "nat \<Rightarrow> string" where
  "hexDigits n = (if n = 0 then [] else hexDigits (n div 16) @ [HexCharacters ! (n mod 16)])"

text \<open>
  Modelled from the spec: \<open>ethers.utils.hexlify\<close> on a number, an even count of digits
  behind \<open>0x\<close>.
\<close>

definition hexlify :: "nat \<Rightarrow> string" where
  "hexlify n =
     (let hex = hexDigits n
      in if hex \<noteq> [] then ''0x'' @ (if odd (length hex) then ''0'' @ hex else hex)
         else ''0x00'')"

text \<open>
  Modelled from the spec: \<open>ethers.utils.hexZeroPad\<close> on a hex string, zero-padded on the
  left to \<open>len\<close> bytes.
\<close>

definition hexZeroPad :: "string \<Rightarrow> nat \<Rightarrow> error + string" where
  "hexZeroPad v len =
     (if length v > 2 * len + 2 then Inl (Error ''value out of range'')
      else Inr (''0x'' @ replicate (2 * len + 2 - length v) (CHR ''0'') @ drop 2 v))"

text \<open>
  \<open>toBytes32\<close> on a number, the one kind of \<open>BigNumberish\<close> that this module passes to
  it.
\<close>

definition toBytes32 :: "nat \<Rightarrow> error + string" where
  "toBytes32 v = (let hexy = hexlify v in hexZeroPad hexy 32)"

text \<open>
  The three rights; a field may be absent (\<open>None\<close>), which is falsy like \<open>false\<close>.
\<close>

record BasePoolRights =
  canTransferOwnership :: "bool option"
  canChangeSwapFee :: "bool option"
  canUpdateMetadata :: "bool option"

definition truthy :: "bool option \<Rightarrow> bool" where
  "truthy b = (case b of Some True \<Rightarrow> True | _ \<Rightarrow> False)"

definition toEncodedBasePoolRights :: "BasePoolRights \<Rightarrow> error + string" where
  "toEncodedBasePoolRights basePoolRights =
     (let v = 0;
          v = (if truthy (canTransferOwnership basePoolRights) then v + 1 else v);
          v = (if truthy (canChangeSwapFee basePoolRights) then v + 2 else v);
          v = (if truthy (canUpdateMetadata basePoolRights) then v + 4 else v)
      in toBytes32 v)"

section \<open>Typed-data signing\<close>

definition DOMAIN_NAME :: string where
  "DOMAIN_NAME = ''Pool Safeguard''"

definition DOMAIN_VERSION :: string where
  "DOMAIN_VERSION = ''1''"

record Domain =
  dm_name :: string
  dm_version :: string
  dm_chainId :: int
  dm_verifyingContract :: string

text \<open>
  The type schema: the struct's name with its fields, each a name and a Solidity type, in
  order.
\<close>

type_synonym TypeSchema = "(string \<times> (string \<times> string) list) list"

text \<open>
  Modelled from the spec: the module \<open>kinds\<close> is not among the sources. Of the join kinds
  and of the exit kinds the signer names one member each, the single supported kind; the
  other members are kept apart by a number. The swap kind is supplied by the caller and
  is a type parameter.
\<close>

datatype SafeguardPoolJoinKind = EXACT_TOKENS_IN_FOR_BPT_OUT | OtherJoinKind nat

datatype SafeguardPoolExitKind = BPT_IN_FOR_EXACT_TOKENS_OUT | OtherExitKind nat

record 'k SwapStruct =
  sw_kind :: 'k
  sw_poolId :: string
  sw_tokenIn :: string
  sw_tokenOut :: string
  sw_amount :: BigNumberish
  sw_recipient :: string
  sw_deadline :: BigNumberish
  sw_swapData :: string

record JoinExactTokensStruct =
  jn_kind :: SafeguardPoolJoinKind
  jn_poolId :: string
  jn_recipient :: string
  jn_deadline :: BigNumberish
  jn_joinData :: string

record ExitExactTokensStruct =
  ex_kind :: SafeguardPoolExitKind
  ex_poolId :: string
  ex_recipient :: string
  ex_deadline :: BigNumberish
  ex_exitData :: string

definition swapTypes :: TypeSchema where
  "swapTypes =
     [(''SwapStruct'',
       [(''kind'', ''uint8''), (''poolId'', ''bytes32''), (''tokenIn'', ''address''),
        (''tokenOut'', ''address''), (''amount'', ''uint256''), (''recipient'', ''address''),
        (''deadline'', ''uint256''), (''swapData'', ''bytes'')])]"

definition joinTypes :: TypeSchema where
  "joinTypes =
     [(''JoinExactTokensStruct'',
       [(''kind'', ''uint8''), (''poolId'', ''bytes32''), (''recipient'', ''address''),
        (''deadline'', ''uint256''), (''joinData'', ''bytes'')])]"

definition exitTypes :: TypeSchema where
  "exitTypes =
     [(''ExitExactTokensStruct'',
       [(''kind'', ''uint8''), (''poolId'', ''bytes32''), (''recipient'', ''address''),
        (''deadline'', ''uint256''), (''exitData'', ''bytes'')])]"

text \<open>
  The signer is the external capability \<open>_signTypedData(domain, types, value)\<close>. Its
  outcome, of type \<open>'r\<close>, is whatever the awaited promise settles to: a signature or a
  rejection, handed on as it is.
\<close>

definition signSwapData ::
  "int \<Rightarrow> string \<Rightarrow> 'k \<Rightarrow> string \<Rightarrow> string \<Rightarrow> string \<Rightarrow> BigNumberish \<Rightarrow> string \<Rightarrow>
   BigNumberish \<Rightarrow> string \<Rightarrow> (Domain \<Rightarrow> TypeSchema \<Rightarrow> 'k SwapStruct \<Rightarrow> 'r) \<Rightarrow> 'r" where
  "signSwapData chainId contractAddress kind poolId tokenIn tokenOut amount recipient deadline
       swapData signer =
     (let domain = \<lparr>dm_name = DOMAIN_NAME, dm_version = DOMAIN_VERSION, dm_chainId = chainId,
                     dm_verifyingContract = contractAddress\<rparr>;
          types = swapTypes;
          val = \<lparr>sw_kind = kind, sw_poolId = poolId, sw_tokenIn = tokenIn,
                  sw_tokenOut = tokenOut, sw_amount = amount, sw_recipient = recipient,
                  sw_deadline = deadline, sw_swapData = swapData\<rparr>;
          signature = signer domain types val
      in signature)"

definition signJoinExactTokensData ::
  "int \<Rightarrow> string \<Rightarrow> string \<Rightarrow> string \<Rightarrow> BigNumberish \<Rightarrow> string \<Rightarrow>
   (Domain \<Rightarrow> TypeSchema \<Rightarrow> JoinExactTokensStruct \<Rightarrow> 'r) \<Rightarrow> 'r" where
  "signJoinExactTokensData chainId contractAddress poolId recipient deadline joinData signer =
     (let domain = \<lparr>dm_name = DOMAIN_NAME, dm_version = DOMAIN_VERSION, dm_chainId = chainId,
                     dm_verifyingContract = contractAddress\<rparr>;
          types = joinTypes;
          val = \<lparr>jn_kind = EXACT_TOKENS_IN_FOR_BPT_OUT, jn_poolId = poolId,
                  jn_recipient = recipient, jn_deadline = deadline, jn_joinData = joinData\<rparr>;
          signature = signer domain types val
      in signature)"

definition signExitExactTokensData ::
  "int \<Rightarrow> string \<Rightarrow> string \<Rightarrow> string \<Rightarrow> BigNumberish \<Rightarrow> string \<Rightarrow>
   (Domain \<Rightarrow> TypeSchema \<Rightarrow> ExitExactTokensStruct \<Rightarrow> 'r) \<Rightarrow> 'r" where
  "signExitExactTokensData chainId contractAddress poolId recipient deadline exitData signer =
     (let domain = \<lparr>dm_name = DOMAIN_NAME, dm_version = DOMAIN_VERSION, dm_chainId = chainId,
                     dm_verifyingContract = contractAddress\<rparr>;
          types = exitTypes;
          val = \<lparr>ex_kind = BPT_IN_FOR_EXACT_TOKENS_OUT, ex_poolId = poolId,
                  ex_recipient = recipient, ex_deadline = deadline, ex_exitData = exitData\<rparr>;
          signature = signer domain types val
      in signature)"

section \<open>Auxiliary facts\<close>

lemma flatMap_isl: "isl (flatMap f xs) = (\<exists>x \<in> set xs. isl (f x))"
  by (induction xs) (auto split: sum.splits)

lemma toTokenMints_Many_raises:
  "isl (toTokenMints (Many ps)) = (\<exists>p \<in> set ps. isl (toTokenMints (One p)))"
  by (simp add: flatMap_isl)

lemma enumerate_replicate:
  "map f (enumerate 0 (replicate n x)) = map (\<lambda>i. f (i, x)) [0..<n]"
  by (rule nth_equalityI) (simp_all add: nth_enumerate_eq)

lemma computeDecimalsFromIndex_nat: "computeDecimalsFromIndex (int i) = int (i mod 19)"
  by (cases "i = 0") (simp_all add: computeDecimalsFromIndex_def zmod_int)

lemma zeros63: "replicate 62 c @ [c] = replicate 63 c"
proof -
  have "replicate 62 c @ [c] = replicate (Suc 62) c"
    by (simp only: replicate_append_same replicate.simps)
  also have "Suc 62 = (63::nat)" by simp
  finally show ?thesis .
qed

lemma rights_bits:
  "bit (of_bool a + 2 * of_bool b + 4 * of_bool c :: nat) 0 = a"
  "bit (of_bool a + 2 * of_bool b + 4 * of_bool c :: nat) 1 = b"
  "bit (of_bool a + 2 * of_bool b + 4 * of_bool c :: nat) 2 = c"
  by (cases a; cases b; cases c; simp add: bit_iff_odd)+

lemma orFill_absent: "orFill None n d = replicate n d" "length (orFill None n d) = n"
  by (simp_all add: orFill_def)

lemma at_replicate: "i < n \<Longrightarrow> at (replicate n d) i = Some d"
  by (simp add: at_def)

lemma at_orFill:
  "i < n \<Longrightarrow> at (orFill xs n d) i = (case xs of None \<Rightarrow> Some d | Some ys \<Rightarrow> at ys i)"
  by (simp add: orFill_def at_def split: option.splits)

lemma withOwner_fields:
  "rs_tokens (withOwner c p) = rs_tokens p"
  "rs_oracles (withOwner c p) = rs_oracles p"
  "rs_maxOracleTimeouts (withOwner c p) = rs_maxOracleTimeouts p"
  "rs_stableTokens (withOwner c p) = rs_stableTokens p"
  "rs_flexibleOracles (withOwner c p) = rs_flexibleOracles p"
  "rs_assetManagers (withOwner c p) = rs_assetManagers p"
  by (simp_all add: withOwner_def)

lemma enumerate_index:
  "map f (enumerate 0 xs) = map (\<lambda>i. f (i, xs ! i)) [0..<length xs]"
  by (rule nth_equalityI) (simp_all add: nth_enumerate_eq)

lemma sd_tokens_eq:
  "sd_tokens (toSafeguardPoolDeployment c params) =
     (case rs_tokens params of None \<Rightarrow> [] | Some ts \<Rightarrow> ts)"
  by (simp add: toSafeguardPoolDeployment_def Let_def withOwner_fields)

lemma sd_oracleParameters_eq:
  "sd_oracleParameters (toSafeguardPoolDeployment c params) =
     map (\<lambda>i.
       \<lparr>op_oracle = at (orFill (rs_oracles params)
            (length (sd_tokens (toSafeguardPoolDeployment c params)))
            (AddressString (ZERO_ADDRESS c))) i,
        op_maxTimeout = at (orFill (rs_maxOracleTimeouts params)
            (length (sd_tokens (toSafeguardPoolDeployment c params))) (Number (1 * DAY c))) i,
        op_isStable = at (orFill (rs_stableTokens params)
            (length (sd_tokens (toSafeguardPoolDeployment c params))) True) i,
        op_isFlexibleOracle = at (orFill (rs_flexibleOracles params)
            (length (sd_tokens (toSafeguardPoolDeployment c params))) False) i\<rparr>)
       [0..<length (sd_tokens (toSafeguardPoolDeployment c params))]"
  unfolding sd_tokens_eq
  by (simp add: toSafeguardPoolDeployment_def Let_def withOwner_fields enumerate_index)

text \<open>
  A property that the raw deployment has with the value \<open>undefined\<close> replaces the
  index-made default, and the final default of \<open>toTokenDeployment\<close> takes its place.
\<close>

lemma toTokenDeployments_undefined_name:
  "toTokenDeployments
     (Tokens (One (Attributes \<lparr>rd_name = Undefined, rd_symbol = Absent, rd_decimals = Absent,
                                rd_from = Absent\<rparr>))) (None :: string option) False =
     Inr [\<lparr>td_from = None, td_name = ''Token'', td_symbol = ''TK0'', td_decimals = 18\<rparr>]"
  by (simp add: toTokenDeployments_def assign_def assignProperty_def toTokenDeployment_def
      nullish_def readProperty_def ownProperty_def digitChar_def)

text \<open>
  \<open>numberToString\<close> writes decimal digits: reading them back, most significant first,
  gives the number.
\<close>

lemma digitChar_value: "d < 10 \<Longrightarrow> of_char (digitChar d) = (48::nat) + d"
proof -
  assume "d < 10"
  then have "d \<in> {0, 1, 2, 3, 4, 5, 6, 7, 8, 9}" by auto
  then show ?thesis by (auto simp: digitChar_def)
qed

lemma numberToString_decodes:
  "foldl (\<lambda>acc ch. 10 * acc + (of_char ch - 48)) 0 (numberToString n) = n"
proof (induction n rule: numberToString.induct)
  case (1 n)
  show ?case
  proof (cases "n < 10")
    case True
    then show ?thesis by (simp add: digitChar_value)
  next
    case False
    with 1 show ?thesis
      by (subst numberToString.simps) (simp add: digitChar_value del: numberToString.simps)
  qed
qed

section \<open>Token mints\<close>

text \<open>
  C1 (as the code has it). For an input that is not an array, \<open>toTokenMints\<close> raises the
  inconsistency error exactly when the sender field is a list and the recipient field is
  either singular or a list of another length. In every other combination it succeeds
  with a flat list of single-recipient, single-sender mints: one mint for two singular
  fields, one mint per recipient with the shared sender for a recipient list and a
  singular sender, and the recipients paired with the senders in order for two lists of
  equal length. Every mint carries the shared amount.
\<close>

theorem toTokenMints_raises_iff:
  "isl (toTokenMints (One p)) =
     ((\<exists>rs ss. rm_to p = Many rs \<and> rm_from p = Many ss \<and> length rs \<noteq> length ss) \<or>
      (\<exists>r ss. rm_to p = One r \<and> rm_from p = Many ss)) \<and>
   toTokenMints (One p) =
     (case (rm_to p, rm_from p) of
        (One r, One s) \<Rightarrow> Inr [\<lparr>tm_to = r, tm_amount = rm_amount p, tm_from = s\<rparr>]
      | (One r, Many ss) \<Rightarrow> Inl (Error ''Inconsistent mint sender length'')
      | (Many rs, One s) \<Rightarrow>
          Inr (map (\<lambda>r. \<lparr>tm_to = r, tm_amount = rm_amount p, tm_from = s\<rparr>) rs)
      | (Many rs, Many ss) \<Rightarrow>
          if length rs = length ss
          then Inr (map (\<lambda>(r, s). \<lparr>tm_to = r, tm_amount = rm_amount p, tm_from = s\<rparr>)
                      (zip rs ss))
          else Inl (Error ''Inconsistent mint sender length''))"
proof
  show "isl (toTokenMints (One p)) =
     ((\<exists>rs ss. rm_to p = Many rs \<and> rm_from p = Many ss \<and> length rs \<noteq> length ss) \<or>
      (\<exists>r ss. rm_to p = One r \<and> rm_from p = Many ss))"
    by (auto simp: toTokenMint_def split: NAry.splits)
next
  show "toTokenMints (One p) =
     (case (rm_to p, rm_from p) of
        (One r, One s) \<Rightarrow> Inr [\<lparr>tm_to = r, tm_amount = rm_amount p, tm_from = s\<rparr>]
      | (One r, Many ss) \<Rightarrow> Inl (Error ''Inconsistent mint sender length'')
      | (Many rs, One s) \<Rightarrow>
          Inr (map (\<lambda>r. \<lparr>tm_to = r, tm_amount = rm_amount p, tm_from = s\<rparr>) rs)
      | (Many rs, Many ss) \<Rightarrow>
          if length rs = length ss
          then Inr (map (\<lambda>(r, s). \<lparr>tm_to = r, tm_amount = rm_amount p, tm_from = s\<rparr>)
                      (zip rs ss))
          else Inl (Error ''Inconsistent mint sender length''))"
    by (auto simp: toTokenMint_def split: NAry.splits intro!: nth_equalityI)
qed

text \<open>
  The examples of the specification: two recipients with one sender give two mints, two
  recipients with three senders raise the error; two recipients with two senders are
  paired in order.
\<close>

theorem toTokenMints_raises_iff_witness:
  "toTokenMints (One \<lparr>rm_to = Many [''a'', ''b''], rm_amount = (7::nat), rm_from = One ''s''\<rparr>) =
     Inr [\<lparr>tm_to = ''a'', tm_amount = 7, tm_from = ''s''\<rparr>,
          \<lparr>tm_to = ''b'', tm_amount = 7, tm_from = ''s''\<rparr>] \<and>
   toTokenMints (One \<lparr>rm_to = Many [''a'', ''b''], rm_amount = (7::nat),
                       rm_from = Many [''s1'', ''s2'', ''s3'']\<rparr>) =
     Inl (Error ''Inconsistent mint sender length'') \<and>
   toTokenMints (One \<lparr>rm_to = Many [''a'', ''b''], rm_amount = (7::nat),
                       rm_from = Many [''s1'', ''s2'']\<rparr>) =
     Inr [\<lparr>tm_to = ''a'', tm_amount = 7, tm_from = ''s1''\<rparr>,
          \<lparr>tm_to = ''b'', tm_amount = 7, tm_from = ''s2''\<rparr>]"
  using toTokenMints_raises_iff
          [of "\<lparr>rm_to = Many [''a'', ''b''], rm_amount = (7::nat), rm_from = One ''s''\<rparr>"]
        toTokenMints_raises_iff
          [of "\<lparr>rm_to = Many [''a'', ''b''], rm_amount = (7::nat),
                rm_from = Many [''s1'', ''s2'', ''s3'']\<rparr>"]
        toTokenMints_raises_iff
          [of "\<lparr>rm_to = Many [''a'', ''b''], rm_amount = (7::nat),
                rm_from = Many [''s1'', ''s2'']\<rparr>"]
  by simp

text \<open>
  C1 as the spec states it fails: a singular recipient with a list of senders does not
  succeed, the guard of the singular branch throws.
\<close>

theorem toTokenMints_singular_recipient_sender_list:
  "toTokenMints (One \<lparr>rm_to = One ''alice'', rm_amount = (100::nat),
                       rm_from = Many [''minter'']\<rparr>) =
     Inl (Error ''Inconsistent mint sender length'')"
  by (simp add: toTokenMint_def)

section \<open>Token approvals\<close>

text \<open>
  C2 (as the code has it). \<open>toTokenApprovals\<close> raises no error on any input, a single raw
  approval or an array of them; in particular it returns normally when the recipient
  field and the sender field are lists of unequal length.
\<close>

theorem toTokenApprovals_never_raises:
  "\<not> isl (toTokenApprovals params)"
  by (cases params) (simp_all add: flatMap_isl toTokenApproval_def Let_def)

text \<open>
  C2 as the spec states it fails: with one recipient and two senders, both given as
  lists, the result is a list of two approvals and no error.
\<close>

theorem toTokenApprovals_unequal_lists_succeed:
  "toTokenApprovals (One \<lparr>ra_to = Many [''spender''], ra_amount = (5::nat),
                           ra_from = Many [''alice'', ''bob'']\<rparr>) =
     Inr [\<lparr>ta_to = ''spender'', ta_amount = 5, ta_from = ''alice''\<rparr>,
          \<lparr>ta_to = ''spender'', ta_amount = 5, ta_from = ''bob''\<rparr>]"
  by (simp add: toTokenApproval_def)

text \<open>
  C10. For an input that is not an array, with a list of \<open>m\<close> recipients and a list of
  \<open>n\<close> senders, \<open>toTokenApprovals\<close> returns without an error the \<open>m * n\<close> approvals of
  the Cartesian product, every recipient with every sender (recipients in the outer
  order), each with the shared amount.
\<close>

theorem toTokenApprovals_cartesian_product:
  "toTokenApprovals (One \<lparr>ra_to = Many rs, ra_amount = a, ra_from = Many ss\<rparr>) =
     Inr (map (\<lambda>(r, s). \<lparr>ta_to = r, ta_amount = a, ta_from = s\<rparr>) (List.product rs ss)) \<and>
   length (projr (toTokenApprovals (One \<lparr>ra_to = Many rs, ra_amount = a,
                                           ra_from = Many ss\<rparr>))) =
     length rs * length ss"
proof -
  have "toTokenApprovals (One \<lparr>ra_to = Many rs, ra_amount = a, ra_from = Many ss\<rparr>) =
     Inr (map (\<lambda>(r, s). \<lparr>ta_to = r, ta_amount = a, ta_from = s\<rparr>) (List.product rs ss))"
    by (induction rs) (simp_all add: toTokenApproval_def)
  then show ?thesis by simp
qed

section \<open>Token deployments from a count and from a symbol\<close>

text \<open>
  C3 (as the code has it). For every natural number \<open>N\<close> below \<open>2^32\<close>,
  \<open>toTokenDeployments\<close> on the bare count \<open>N\<close> returns exactly \<open>N\<close> deployments; entry
  \<open>i\<close>, for \<open>i\<close> from \<open>0\<close> to \<open>N - 1\<close>, has the symbol \<open>TK\<close> and the name \<open>Token\<close>
  followed by the decimal digits of \<open>i\<close>, and \<open>18\<close> decimals when the vary-decimals flag
  is false, \<open>i mod 19\<close> when it is true. From \<open>2^32\<close> on the array constructor throws a
  \<open>RangeError\<close> and no list is returned.
\<close>

theorem toTokenDeployments_count:
  "(N < 2 ^ 32 \<longrightarrow>
      toTokenDeployments (Count (int N)) from_signer varyDecimals =
        Inr (map (\<lambda>i. \<lparr>td_from = from_signer,
                        td_name = ''Token '' @ numberToString i,
                        td_symbol = ''TK'' @ numberToString i,
                        td_decimals = (if varyDecimals then int (i mod 19) else 18)\<rparr>) [0..<N]) \<and>
      length (projr (toTokenDeployments (Count (int N)) from_signer varyDecimals)) = N) \<and>
   (2 ^ 32 \<le> N \<longrightarrow>
      toTokenDeployments (Count (int N)) from_signer varyDecimals =
        Inl (RangeError ''Invalid array length''))"
proof (intro conjI impI)
  assume small: "N < 2 ^ 32"
  then have "int N < 2 ^ 32"
    by (metis of_nat_less_iff of_nat_numeral of_nat_power)
  then have fill: "arrayFill (int N) x = Inr (replicate N x)" for x :: "'b"
    by (simp add: arrayFill_def)
  have from_read: "readProperty (ownProperty from_signer) = from_signer"
    by (cases from_signer) (simp_all add: readProperty_def ownProperty_def)
  show eq: "toTokenDeployments (Count (int N)) from_signer varyDecimals =
        Inr (map (\<lambda>i. \<lparr>td_from = from_signer,
                        td_name = ''Token '' @ numberToString i,
                        td_symbol = ''TK'' @ numberToString i,
                        td_decimals = (if varyDecimals then int (i mod 19) else 18)\<rparr>) [0..<N])"
    by (simp add: toTokenDeployments_def fill enumerate_replicate assign_def
        assignProperty_def toTokenDeployment_def nullish_def readProperty_def
        from_read [unfolded readProperty_def] computeDecimalsFromIndex_nat
        del: numberToString.simps)
  show "length (projr (toTokenDeployments (Count (int N)) from_signer varyDecimals)) = N"
    by (simp add: eq del: numberToString.simps)
next
  assume "2 ^ 32 \<le> N"
  then have "\<not> int N < 2 ^ 32"
    by (metis not_less of_nat_le_iff of_nat_numeral of_nat_power)
  then show "toTokenDeployments (Count (int N)) from_signer varyDecimals =
        Inl (RangeError ''Invalid array length'')"
    by (simp add: toTokenDeployments_def arrayFill_def)
qed

text \<open>
  Twenty-one tokens with varying decimals: the indices reach two digits, and the decimals
  start again from \<open>0\<close> at index \<open>19\<close>. A count past the largest array length raises
  the error.
\<close>

theorem toTokenDeployments_count_witness:
  "(21::nat) < 2 ^ 32 \<and>
   map td_symbol (projr (toTokenDeployments (Count 21) (None :: string option) True)) =
     [''TK0'', ''TK1'', ''TK2'', ''TK3'', ''TK4'', ''TK5'', ''TK6'', ''TK7'', ''TK8'', ''TK9'',
      ''TK10'', ''TK11'', ''TK12'', ''TK13'', ''TK14'', ''TK15'', ''TK16'', ''TK17'', ''TK18'',
      ''TK19'', ''TK20''] \<and>
   map td_decimals (projr (toTokenDeployments (Count 21) (None :: string option) True)) =
     [0, 1, 2, 3, 4, 5, 6, 7, 8, 9, 10, 11, 12, 13, 14, 15, 16, 17, 18, 0, 1] \<and>
   toTokenDeployments (Count 2) (None :: string option) False =
     Inr [\<lparr>td_from = None, td_name = ''Token 0'', td_symbol = ''TK0'', td_decimals = 18\<rparr>,
          \<lparr>td_from = None, td_name = ''Token 1'', td_symbol = ''TK1'', td_decimals = 18\<rparr>] \<and>
   toTokenDeployments (Count 0) (None :: string option) True = Inr [] \<and>
   (2::nat) ^ 32 \<le> 4294967297 \<and>
   toTokenDeployments (Count 4294967297) (None :: string option) True =
     Inl (RangeError ''Invalid array length'')"
proof -
  have past: "toTokenDeployments (Count 4294967297) (None :: string option) True =
      Inl (RangeError ''Invalid array length'')"
    using toTokenDeployments_count [of 4294967297 "None :: string option" True] by simp
  show ?thesis
    using toTokenDeployments_count [of 21 "None :: string option" True]
          toTokenDeployments_count [of 2 "None :: string option" False]
          toTokenDeployments_count [of 0 "None :: string option" True]
    by (simp add: past upt_rec digitChar_def)
qed

text \<open>
  C3 as the spec states it fails: the count \<open>2^32\<close> is a natural number, and for it the
  array constructor throws instead of making \<open>2^32\<close> entries.
\<close>

theorem toTokenDeployments_count_range_error:
  "toTokenDeployments (Count 4294967296) (None :: string option) False =
     Inl (RangeError ''Invalid array length'')"
  by (simp add: toTokenDeployments_def arrayFill_def)

text \<open>
  C5. For every string \<open>s\<close>, \<open>toTokenDeployment(s)\<close> is \<open>toTokenDeployment({symbol: s})\<close>;
  the result has the symbol \<open>s\<close>, the name \<open>Token\<close> and \<open>18\<close> decimals. With no symbol
  given at all the symbol is \<open>TKN\<close>.
\<close>

theorem toTokenDeployment_symbol_shorthand:
  "toTokenDeployment (Symbol s) =
     toTokenDeployment (Attributes \<lparr>rd_name = Absent, rd_symbol = Value s, rd_decimals = Absent,
                                     rd_from = (Absent :: 's Property)\<rparr>) \<and>
   toTokenDeployment (Symbol s) =
     \<lparr>td_from = (None :: 's option), td_name = ''Token'', td_symbol = s, td_decimals = 18\<rparr> \<and>
   toTokenDeployment (Attributes \<lparr>rd_name = Absent, rd_symbol = Absent, rd_decimals = Absent,
                                   rd_from = (Absent :: 's Property)\<rparr>) =
     \<lparr>td_from = None, td_name = ''Token'', td_symbol = ''TKN'', td_decimals = 18\<rparr>"
  by (simp add: toTokenDeployment_def nullish_def readProperty_def)

section \<open>Vault deployment defaults\<close>

text \<open>
  C6. \<open>toVaultDeployment\<close> on the empty raw deployment returns a vault deployment whose
  \<open>maxYieldValue\<close> and \<open>maxAUMValue\<close> are both the 100% fixed-point constant, whose
  \<open>pauseWindowDuration\<close> and \<open>bufferPeriodDuration\<close> are both \<open>0\<close>, and whose \<open>mocked\<close>
  is false (the admin is the absent \<open>from\<close>).
\<close>

theorem toVaultDeployment_empty:
  "toVaultDeployment c emptyRawVaultDeployment =
     \<lparr>vd_mocked = False, vd_admin = None, vd_pauseWindowDuration = Number 0,
      vd_bufferPeriodDuration = Number 0, vd_maxYieldValue = FP_100_PCT c,
      vd_maxAUMValue = FP_100_PCT c\<rparr>"
  by (simp add: toVaultDeployment_def emptyRawVaultDeployment_def orDefault_def
      falsyBigNumberish_def)

section \<open>Address normalisation\<close>

text \<open>
  C7 (as the code has it). \<open>toAddress\<close> returns the zero address when the input is absent
  or is the empty string, the string itself when the input is any other string, and the
  object's \<open>address\<close> field when the input is an account-like object.
\<close>

theorem toAddress_cases:
  "toAddress c None = ZERO_ADDRESS c \<and>
   toAddress c (Some (AddressString s)) = (if s = [] then ZERO_ADDRESS c else s) \<and>
   toAddress c (Some (AccountObject a)) = a"
  by (simp add: toAddress_def falsyAccount_def)

theorem toAddress_cases_witness:
  "toAddress \<lparr>FP_100_PCT = BigNumber 1000000000000000000, fp_0_1 = BigNumber 100000000000000000,
              fp_0_2 = BigNumber 200000000000000000, DAY = 86400, MONTH = 2592000,
              ZERO_ADDRESS = ''0x0000000000000000000000000000000000000000''\<rparr>
     (Some (AddressString ''0xABC'')) = ''0xABC'' \<and>
   toAddress \<lparr>FP_100_PCT = BigNumber 1000000000000000000, fp_0_1 = BigNumber 100000000000000000,
              fp_0_2 = BigNumber 200000000000000000, DAY = 86400, MONTH = 2592000,
              ZERO_ADDRESS = ''0x0000000000000000000000000000000000000000''\<rparr>
     (Some (AccountObject ''0xABC'')) = ''0xABC'' \<and>
   toAddress \<lparr>FP_100_PCT = BigNumber 1000000000000000000, fp_0_1 = BigNumber 100000000000000000,
              fp_0_2 = BigNumber 200000000000000000, DAY = 86400, MONTH = 2592000,
              ZERO_ADDRESS = ''0x0000000000000000000000000000000000000000''\<rparr>
     None = ''0x0000000000000000000000000000000000000000''"
  using toAddress_cases [of
      "\<lparr>FP_100_PCT = BigNumber 1000000000000000000, fp_0_1 = BigNumber 100000000000000000,
        fp_0_2 = BigNumber 200000000000000000, DAY = 86400, MONTH = 2592000,
        ZERO_ADDRESS = ''0x0000000000000000000000000000000000000000''\<rparr>"
      "''0xABC''" "''0xABC''"]
  by simp

text \<open>
  C7 as the spec states it fails: the empty string is a string, and \<open>toAddress\<close> does not
  return it; the falsy test sends it to the zero address.
\<close>

theorem toAddress_empty_string:
  "toAddress \<lparr>FP_100_PCT = BigNumber 1000000000000000000, fp_0_1 = BigNumber 100000000000000000,
              fp_0_2 = BigNumber 200000000000000000, DAY = 86400, MONTH = 2592000,
              ZERO_ADDRESS = ''0x0000000000000000000000000000000000000000''\<rparr>
     (Some (AddressString [])) = ''0x0000000000000000000000000000000000000000'' \<and>
   toAddress \<lparr>FP_100_PCT = BigNumber 1000000000000000000, fp_0_1 = BigNumber 100000000000000000,
              fp_0_2 = BigNumber 200000000000000000, DAY = 86400, MONTH = 2592000,
              ZERO_ADDRESS = ''0x0000000000000000000000000000000000000000''\<rparr>
     (Some (AddressString [])) \<noteq> []"
  by (simp add: toAddress_def falsyAccount_def)

section \<open>Safeguard pool list defaults\<close>

text \<open>
  C8. In \<open>toSafeguardPoolDeployment\<close> the token count is the length of the given token
  list (\<open>0\<close> for an absent one). An absent list of asset managers defaults to that many
  zero addresses. The returned oracle parameters are one record per token index, its four
  fields read at that index from the oracles, the timeouts, the stable flags and the
  flexible flags: a given list is read index-wise, and an absent list stands for a list of
  the token count's length filled with its default (the zero address, a one-day timeout,
  true, false), so that every index finds the default.
\<close>

theorem toSafeguardPoolDeployment_list_defaults:
  "sd_tokens (toSafeguardPoolDeployment c params) =
     (case rs_tokens params of None \<Rightarrow> [] | Some ts \<Rightarrow> ts) \<and>
   sd_assetManagers (toSafeguardPoolDeployment c params) =
     (case rs_assetManagers params of
        None \<Rightarrow> replicate (length (sd_tokens (toSafeguardPoolDeployment c params))) (ZERO_ADDRESS c)
      | Some ms \<Rightarrow> ms) \<and>
   sd_oracleParameters (toSafeguardPoolDeployment c params) =
     map (\<lambda>i.
       \<lparr>op_oracle = (case rs_oracles params of
                       None \<Rightarrow> Some (AddressString (ZERO_ADDRESS c)) | Some os \<Rightarrow> at os i),
        op_maxTimeout = (case rs_maxOracleTimeouts params of
                       None \<Rightarrow> Some (Number (DAY c)) | Some ts \<Rightarrow> at ts i),
        op_isStable = (case rs_stableTokens params of
                       None \<Rightarrow> Some True | Some bs \<Rightarrow> at bs i),
        op_isFlexibleOracle = (case rs_flexibleOracles params of
                       None \<Rightarrow> Some False | Some bs \<Rightarrow> at bs i)\<rparr>)
       [0..<length (sd_tokens (toSafeguardPoolDeployment c params))]"
proof (intro conjI)
  show "sd_tokens (toSafeguardPoolDeployment c params) =
     (case rs_tokens params of None \<Rightarrow> [] | Some ts \<Rightarrow> ts)"
    by (rule sd_tokens_eq)
  show "sd_assetManagers (toSafeguardPoolDeployment c params) =
     (case rs_assetManagers params of
        None \<Rightarrow> replicate (length (sd_tokens (toSafeguardPoolDeployment c params))) (ZERO_ADDRESS c)
      | Some ms \<Rightarrow> ms)"
    unfolding sd_tokens_eq
    by (simp add: toSafeguardPoolDeployment_def Let_def withOwner_fields orFill_def
        split: option.splits)
  show "sd_oracleParameters (toSafeguardPoolDeployment c params) =
     map (\<lambda>i.
       \<lparr>op_oracle = (case rs_oracles params of
                       None \<Rightarrow> Some (AddressString (ZERO_ADDRESS c)) | Some os \<Rightarrow> at os i),
        op_maxTimeout = (case rs_maxOracleTimeouts params of
                       None \<Rightarrow> Some (Number (DAY c)) | Some ts \<Rightarrow> at ts i),
        op_isStable = (case rs_stableTokens params of
                       None \<Rightarrow> Some True | Some bs \<Rightarrow> at bs i),
        op_isFlexibleOracle = (case rs_flexibleOracles params of
                       None \<Rightarrow> Some False | Some bs \<Rightarrow> at bs i)\<rparr>)
       [0..<length (sd_tokens (toSafeguardPoolDeployment c params))]"
    by (subst sd_oracleParameters_eq, rule map_cong) (simp_all add: at_orFill)
qed

text \<open>
  Two tokens, every list absent but the stable flags, given for the first token only: the
  absent lists give their defaults at both indices, the short list gives nothing at the
  second.
\<close>

theorem toSafeguardPoolDeployment_list_defaults_witness:
  "sd_oracleParameters (toSafeguardPoolDeployment
      \<lparr>FP_100_PCT = BigNumber 1000000000000000000, fp_0_1 = BigNumber 100000000000000000,
       fp_0_2 = BigNumber 200000000000000000, DAY = 86400, MONTH = 2592000,
       ZERO_ADDRESS = ''0x0000000000000000000000000000000000000000''\<rparr>
      \<lparr>rs_tokens = Some [''DAI'', ''WETH''], rs_oracles = None, rs_maxOracleTimeouts = None,
       rs_stableTokens = Some [False], rs_flexibleOracles = None, rs_assetManagers = None,
       rs_pauseWindowDuration = None, rs_bufferPeriodDuration = None,
       rs_signer = (None :: string option), rs_maxPerfDev = None, rs_maxTargetDev = None,
       rs_maxPriceDev = None, rs_perfUpdateInterval = None, rs_yearlyFees = None,
       rs_mustAllowlistLPs = None, rs_owner = None, rs_from = None\<rparr>) =
     [\<lparr>op_oracle = Some (AddressString ''0x0000000000000000000000000000000000000000''),
       op_maxTimeout = Some (Number 86400), op_isStable = Some False,
       op_isFlexibleOracle = Some False\<rparr>,
      \<lparr>op_oracle = Some (AddressString ''0x0000000000000000000000000000000000000000''),
       op_maxTimeout = Some (Number 86400), op_isStable = None,
       op_isFlexibleOracle = Some False\<rparr>] \<and>
   sd_assetManagers (toSafeguardPoolDeployment
      \<lparr>FP_100_PCT = BigNumber 1000000000000000000, fp_0_1 = BigNumber 100000000000000000,
       fp_0_2 = BigNumber 200000000000000000, DAY = 86400, MONTH = 2592000,
       ZERO_ADDRESS = ''0x0000000000000000000000000000000000000000''\<rparr>
      \<lparr>rs_tokens = Some [''DAI'', ''WETH''], rs_oracles = None, rs_maxOracleTimeouts = None,
       rs_stableTokens = Some [False], rs_flexibleOracles = None, rs_assetManagers = None,
       rs_pauseWindowDuration = None, rs_bufferPeriodDuration = None,
       rs_signer = (None :: string option), rs_maxPerfDev = None, rs_maxTargetDev = None,
       rs_maxPriceDev = None, rs_perfUpdateInterval = None, rs_yearlyFees = None,
       rs_mustAllowlistLPs = None, rs_owner = None, rs_from = None\<rparr>) =
     [''0x0000000000000000000000000000000000000000'',
      ''0x0000000000000000000000000000000000000000'']"
  using toSafeguardPoolDeployment_list_defaults [of
      "\<lparr>FP_100_PCT = BigNumber 1000000000000000000, fp_0_1 = BigNumber 100000000000000000,
       fp_0_2 = BigNumber 200000000000000000, DAY = 86400, MONTH = 2592000,
       ZERO_ADDRESS = ''0x0000000000000000000000000000000000000000''\<rparr>"
      "\<lparr>rs_tokens = Some [''DAI'', ''WETH''], rs_oracles = None, rs_maxOracleTimeouts = None,
       rs_stableTokens = Some [False], rs_flexibleOracles = None, rs_assetManagers = None,
       rs_pauseWindowDuration = None, rs_bufferPeriodDuration = None,
       rs_signer = (None :: string option), rs_maxPerfDev = None, rs_maxTargetDev = None,
       rs_maxPriceDev = None, rs_perfUpdateInterval = None, rs_yearlyFees = None,
       rs_mustAllowlistLPs = None, rs_owner = None, rs_from = None\<rparr>"]
  by (simp add: upt_rec at_def numeral_2_eq_2)

section \<open>Encoded pool rights\<close>

text \<open>
  C4. For every combination of the three pool rights, with \<open>v\<close> the integer below \<open>8\<close>
  whose bit 0 is the ownership-transfer flag, bit 1 the swap-fee-change flag and bit 2 the
  metadata-update flag, \<open>toEncodedBasePoolRights\<close> returns the zero-padded 32-byte hex
  encoding of \<open>v\<close>: \<open>0x\<close>, 63 zeros and the hex digit of \<open>v\<close>. With
  \<open>canTransferOwnership\<close> and \<open>canUpdateMetadata\<close> true and \<open>canChangeSwapFee\<close> false or
  absent the integer is \<open>5\<close>.
\<close>

theorem toEncodedBasePoolRights_bits:
  "(let v = of_bool (truthy (canTransferOwnership r)) +
            2 * of_bool (truthy (canChangeSwapFee r)) +
            4 * of_bool (truthy (canUpdateMetadata r)) :: nat
    in v < 8 \<and>
       bit v 0 = truthy (canTransferOwnership r) \<and>
       bit v 1 = truthy (canChangeSwapFee r) \<and>
       bit v 2 = truthy (canUpdateMetadata r) \<and>
       toEncodedBasePoolRights r = toBytes32 v \<and>
       toEncodedBasePoolRights r =
         Inr (''0x'' @ replicate 63 (CHR ''0'') @ [HexCharacters ! v])) \<and>
   toEncodedBasePoolRights \<lparr>canTransferOwnership = Some True, canChangeSwapFee = None,
                             canUpdateMetadata = Some True\<rparr> =
     Inr ''0x0000000000000000000000000000000000000000000000000000000000000005'' \<and>
   toEncodedBasePoolRights \<lparr>canTransferOwnership = Some True, canChangeSwapFee = Some False,
                             canUpdateMetadata = Some True\<rparr> =
     Inr ''0x0000000000000000000000000000000000000000000000000000000000000005''"
proof (intro conjI)
  have value_eq: "toEncodedBasePoolRights r =
      toBytes32 (of_bool (truthy (canTransferOwnership r)) +
                 2 * of_bool (truthy (canChangeSwapFee r)) +
                 4 * of_bool (truthy (canUpdateMetadata r)))"
    by (simp add: toEncodedBasePoolRights_def Let_def)
  have string_eq: "toEncodedBasePoolRights r =
      Inr (''0x'' @ replicate 63 (CHR ''0'') @
           [HexCharacters ! (of_bool (truthy (canTransferOwnership r)) +
                             2 * of_bool (truthy (canChangeSwapFee r)) +
                             4 * of_bool (truthy (canUpdateMetadata r)))])"
    by (cases "truthy (canTransferOwnership r)"; cases "truthy (canChangeSwapFee r)";
        cases "truthy (canUpdateMetadata r)")
       (simp_all add: toEncodedBasePoolRights_def toBytes32_def hexlify_def hexZeroPad_def
          HexCharacters_def Let_def zeros63)
  have below: "of_bool (truthy (canTransferOwnership r)) +
               2 * of_bool (truthy (canChangeSwapFee r)) +
               4 * of_bool (truthy (canUpdateMetadata r)) < (8::nat)"
    by (simp add: of_bool_def)
  show "let v = of_bool (truthy (canTransferOwnership r)) +
            2 * of_bool (truthy (canChangeSwapFee r)) +
            4 * of_bool (truthy (canUpdateMetadata r)) :: nat
    in v < 8 \<and>
       bit v 0 = truthy (canTransferOwnership r) \<and>
       bit v 1 = truthy (canChangeSwapFee r) \<and>
       bit v 2 = truthy (canUpdateMetadata r) \<and>
       toEncodedBasePoolRights r = toBytes32 v \<and>
       toEncodedBasePoolRights r =
         Inr (''0x'' @ replicate 63 (CHR ''0'') @ [HexCharacters ! v])"
    unfolding Let_def using value_eq string_eq below
    by (simp only: rights_bits simp_thms)
  show "toEncodedBasePoolRights \<lparr>canTransferOwnership = Some True, canChangeSwapFee = None,
                             canUpdateMetadata = Some True\<rparr> =
     Inr ''0x0000000000000000000000000000000000000000000000000000000000000005''"
    by code_simp
  show "toEncodedBasePoolRights \<lparr>canTransferOwnership = Some True, canChangeSwapFee = Some False,
                             canUpdateMetadata = Some True\<rparr> =
     Inr ''0x0000000000000000000000000000000000000000000000000000000000000005''"
    by code_simp
qed

section \<open>Typed-data signatures\<close>

text \<open>
  C9. Whatever the signer is, each of sign-swap, sign-join and sign-exit hands it a domain
  with the name \<open>Pool Safeguard\<close>, the version \<open>1\<close>, and the caller's chain identifier
  and verifying contract, the operation's type schema, and a value made of the caller's
  arguments; in the value of sign-join the kind is \<open>EXACT_TOKENS_IN_FOR_BPT_OUT\<close> and in
  that of sign-exit \<open>BPT_IN_FOR_EXACT_TOKENS_OUT\<close>, neither taken from the caller. The
  operation's result is the signer's outcome, unchanged.
\<close>

theorem sign_operations_pass_domain_and_value:
  "signSwapData chainId contractAddress kind poolId tokenIn tokenOut amount recipient deadline
       swapData signer =
     signer \<lparr>dm_name = ''Pool Safeguard'', dm_version = ''1'', dm_chainId = chainId,
              dm_verifyingContract = contractAddress\<rparr>
            swapTypes
            \<lparr>sw_kind = kind, sw_poolId = poolId, sw_tokenIn = tokenIn, sw_tokenOut = tokenOut,
              sw_amount = amount, sw_recipient = recipient, sw_deadline = deadline,
              sw_swapData = swapData\<rparr> \<and>
   signJoinExactTokensData chainId contractAddress poolId recipient deadline joinData signerJ =
     signerJ \<lparr>dm_name = ''Pool Safeguard'', dm_version = ''1'', dm_chainId = chainId,
               dm_verifyingContract = contractAddress\<rparr>
             joinTypes
             \<lparr>jn_kind = EXACT_TOKENS_IN_FOR_BPT_OUT, jn_poolId = poolId,
               jn_recipient = recipient, jn_deadline = deadline, jn_joinData = joinData\<rparr> \<and>
   signExitExactTokensData chainId contractAddress poolId recipient deadline exitData signerE =
     signerE \<lparr>dm_name = ''Pool Safeguard'', dm_version = ''1'', dm_chainId = chainId,
               dm_verifyingContract = contractAddress\<rparr>
             exitTypes
             \<lparr>ex_kind = BPT_IN_FOR_EXACT_TOKENS_OUT, ex_poolId = poolId,
               ex_recipient = recipient, ex_deadline = deadline, ex_exitData = exitData\<rparr>"
  by (simp add: signSwapData_def signJoinExactTokensData_def signExitExactTokensData_def
      DOMAIN_NAME_def DOMAIN_VERSION_def)

end
